theory Spec2Isabelle
  imports Main
begin

section \<open>The backend wiring (database module and application module)\<close>

subsection \<open>The configuration service\<close>

text \<open>
  \<^verbatim>\<open>ConfigService\<close> answers lookups of environment keys. \<^verbatim>\<open>getOrThrow\<close> throws when
  the key is not defined; the throw is the \<open>Inl\<close> branch.
\<close>

type_synonym config_service = "string \<rightharpoonup> string"

datatype config_error = MissingKey string

definition getOrThrow :: "config_service \<Rightarrow> string \<Rightarrow> config_error + string" where
  "getOrThrow configService key =
     (case configService key of
        None \<Rightarrow> Inl (MissingKey key)
      | Some v \<Rightarrow> Inr v)"

subsection \<open>The provider of \<^verbatim>\<open>DATABASE_CONNECTION\<close>\<close>

text \<open>
  \<^verbatim>\<open>
  useFactory: (configService: ConfigService) => {
    const pool = new Pool({
      connectionString: configService.getOrThrow('DATABASE_URL'),
    });
    return drizzle(pool, { schema: {} });
  }
  \<close>
  The schema object maps a name to a table; it is kept as an association list, the
  empty object being the empty list.
\<close>

record pool =
  connectionString :: string

datatype pg_table = PgTable string

record drizzle_config =
  schema :: "(string \<times> pg_table) list"

record node_pg_database =
  db_client :: pool
  db_schema :: "(string \<times> pg_table) list"

definition Pool :: "string \<Rightarrow> pool" where
  "Pool url = \<lparr>connectionString = url\<rparr>"

definition drizzle :: "pool \<Rightarrow> drizzle_config \<Rightarrow> node_pg_database" where
  "drizzle client config = \<lparr>db_client = client, db_schema = schema config\<rparr>"

definition databaseConnectionFactory :: "config_service \<Rightarrow> config_error + node_pg_database" where
  "databaseConnectionFactory configService =
     (case getOrThrow configService ''DATABASE_URL'' of
        Inl e \<Rightarrow> Inl e
      | Inr url \<Rightarrow> Inr (drizzle (Pool url) \<lparr>schema = []\<rparr>))"

text \<open>The tables of the persisted state, by the names the README gives them.\<close>

definition authTables :: "string list" where
  "authTables = [''user'', ''session'', ''account'', ''verification'']"

definition registeredTables :: "node_pg_database \<Rightarrow> string list" where
  "registeredTables db = map fst (db_schema db)"

subsection \<open>The options handed to the authentication library\<close>

text \<open>
  \<^verbatim>\<open>
  useFactory: (database: NodePgDatabase) => ({
    auth: betterAuth({
      database: drizzleAdapter(database, { provider: 'pg' }),
    }),
  }),
  inject: [DATABASE_CONNECTION],
  \<close>
  The options type belongs to the library. Its fields that the configuration example of
  the README (\<^verbatim>\<open>emailAndPassword: { enabled: true }\<close>, \<^verbatim>\<open>trustedOrigins\<close>) and the
  configuration surface of the specification (session lifetime, cost of the credential
  hash) name are kept, each optional: a field the object literal does not set is
  \<open>None\<close>, and the library then applies its own default.
\<close>

record email_and_password_options =
  enabled :: bool

record drizzle_adapter_config =
  provider :: string

record drizzle_adapter =
  adapter_database :: node_pg_database
  adapter_provider :: string

definition drizzleAdapter :: "node_pg_database \<Rightarrow> drizzle_adapter_config \<Rightarrow> drizzle_adapter" where
  "drizzleAdapter db config = \<lparr>adapter_database = db, adapter_provider = provider config\<rparr>"

record better_auth_options =
  opt_database :: "drizzle_adapter option"
  opt_emailAndPassword :: "email_and_password_options option"
  opt_trustedOrigins :: "string list option"
  opt_sessionExpiresIn :: "nat option"
  opt_passwordHashCost :: "nat option"

datatype auth = BetterAuth better_auth_options

definition betterAuth :: "better_auth_options \<Rightarrow> auth" where
  "betterAuth options = BetterAuth options"

record auth_module_options =
  auth :: auth

definition authModuleFactory :: "node_pg_database \<Rightarrow> auth_module_options" where
  "authModuleFactory database =
     \<lparr>auth = betterAuth
        \<lparr>opt_database = Some (drizzleAdapter database \<lparr>provider = ''pg''\<rparr>),
         opt_emailAndPassword = None,
         opt_trustedOrigins = None,
         opt_sessionExpiresIn = None,
         opt_passwordHashCost = None\<rparr>\<rparr>"

text \<open>
  Dependency injection: the factory of the authentication module asks for
  \<^verbatim>\<open>DATABASE_CONNECTION\<close>, which the database module exports; resolving it runs the
  connection factory on the configuration service first, and a throw there aborts the start.
\<close>

definition resolveAuthModule :: "config_service \<Rightarrow> config_error + auth_module_options" where
  "resolveAuthModule configService =
     (case databaseConnectionFactory configService of
        Inl e \<Rightarrow> Inl e
      | Inr database \<Rightarrow> Inr (authModuleFactory database))"

section \<open>The module graph (application, users and database modules)\<close>

text \<open>
  A module lists the modules it imports, its controllers, its providers and the tokens it
  exports. A provider binds an injection token to a class or to a factory with the tokens
  the factory asks for.
\<close>

datatype controller = UsersController | LibraryController string

datatype class_ref = AuthGuard

datatype injection_token = APP_GUARD | DATABASE_CONNECTION | ConfigService

datatype provider =
    UseClass injection_token class_ref
  | UseFactory injection_token "injection_token list"

datatype nest_module =
  Module (module_imports: "nest_module list") (module_controllers: "controller list")
         (module_providers: "provider list") (module_exports: "injection_token list")

text \<open>
  The modules that the framework and the authentication package supply are not code of
  the repository; they are parameters of the graph, and a controller of theirs is a
  \<open>LibraryController\<close>.
\<close>

record framework_modules =
  ConfigModule :: nest_module
  ConfigModule_forRoot :: nest_module
  AuthModule_forRootAsync :: "nest_module list \<Rightarrow> nest_module"

text \<open>
  \<^verbatim>\<open>
  @Module({ controllers: [UsersController] })
  export class UsersModule {}
  \<close>
\<close>

definition UsersModule :: nest_module where
  "UsersModule = Module [] [UsersController] [] []"

text \<open>
  \<^verbatim>\<open>
  @Module({
    imports: [ConfigModule],
    providers: [{ provide: DATABASE_CONNECTION, useFactory: ..., inject: [ConfigService] }],
    exports: [DATABASE_CONNECTION],
  })
  export class DatabaseModule {}
  \<close>
\<close>

definition DatabaseModule :: "framework_modules \<Rightarrow> nest_module" where
  "DatabaseModule lib =
     Module [ConfigModule lib] [] [UseFactory DATABASE_CONNECTION [ConfigService]]
       [DATABASE_CONNECTION]"

text \<open>
  \<^verbatim>\<open>
  @Module({
    imports: [UsersModule, ConfigModule.forRoot(),
              AuthModule.forRootAsync({ imports: [DatabaseModule], useFactory: ...,
                                        inject: [DATABASE_CONNECTION] })],
    controllers: [],
    providers: [{ provide: APP_GUARD, useClass: AuthGuard }],
  })
  export class AppModule {}
  \<close>
\<close>

definition AppModule :: "framework_modules \<Rightarrow> nest_module" where
  "AppModule lib =
     Module [UsersModule, ConfigModule_forRoot lib, AuthModule_forRootAsync lib [DatabaseModule lib]]
       []
       [UseClass APP_GUARD AuthGuard]
       []"

text \<open>
  The file of the application module holds a second text of the module:
  \<^verbatim>\<open>
  @Module({
    imports: [ConfigModule.forRoot(), DatabaseModule, AuthModule.forRootAsync({})],
    controllers: [],
    providers: [],
  })
  export class AppModule {}
  \<close>
\<close>

definition AppModule_second :: "framework_modules \<Rightarrow> nest_module" where
  "AppModule_second lib =
     Module [ConfigModule_forRoot lib, DatabaseModule lib, AuthModule_forRootAsync lib []]
       []
       []
       []"

text \<open>
  Modelled from the spec: how the framework (an imported package) reads the graph. The
  controllers of a module and of every module it imports are mounted.
\<close>

fun mountedControllers :: "nest_module \<Rightarrow> controller list" where
  "mountedControllers (Module ms cs ps es) = cs @ concat (map mountedControllers ms)"

text \<open>
  Modelled from the spec: the framework's collection of the global guards. Section 9 has
  the guard "centrally registered" and "consulted on every inbound request": a provider
  under the token \<^verbatim>\<open>APP_GUARD\<close>, in any module of the graph, is a guard of every route.
\<close>

fun appGuardOf :: "provider \<Rightarrow> class_ref list" where
  "appGuardOf (UseClass APP_GUARD c) = [c]"
| "appGuardOf _ = []"

fun globalGuards :: "nest_module \<Rightarrow> class_ref list" where
  "globalGuards (Module ms cs ps es) = concat (map appGuardOf ps) @ concat (map globalGuards ms)"

section \<open>The access guard\<close>

text \<open>
  The class \<^verbatim>\<open>AuthGuard\<close> and the framework's handling of a request belong to imported
  packages, and the routes of \<^verbatim>\<open>UsersController\<close> are in a file that is not among the
  sources. The guard and the handling of a request are modelled from sections 4.3 and 9 of
  the specification. The routes of a controller (\<open>routesOf\<close>) and the validation of a
  token by the session manager (\<open>validate\<close>, with \<open>Inr\<close> the owning user) are
  parameters of the model.

  A route carries the opt-out marker (\<open>route_public\<close>); a request carries at most one
  session token in its carrier (cookie or header).
\<close>

record route =
  route_method :: string
  route_path :: string
  route_public :: bool

record request =
  request_method :: string
  request_path :: string
  request_token :: "string option"

datatype 'u outcome = NotFound | Unauthorized | Handled route "'u option"

datatype guard_error = UnauthorizedError

text \<open>
  Modelled from the spec: the first half of the guard, missing with the class
  \<^verbatim>\<open>AuthGuard\<close>. Section 4.3: it "extracts the session token from the request's designated
  carrier (cookie or header), calls validate".
\<close>

definition resolveSession :: "(string \<Rightarrow> 'e + 'u) \<Rightarrow> request \<Rightarrow> 'u option" where
  "resolveSession validate req =
     (case request_token req of
        None \<Rightarrow> None
      | Some token \<Rightarrow> (case validate token of Inl e \<Rightarrow> None | Inr user \<Rightarrow> Some user))"

text \<open>
  Modelled from the spec: the decision of the class \<^verbatim>\<open>AuthGuard\<close>, which is missing.
  Section 4.3: it "either attaches the resolved User to the request context and allows it
  through, or rejects with an Unauthorized outcome"; "every route is protected unless
  explicitly marked public".
\<close>

fun canActivate ::
  "class_ref \<Rightarrow> (string \<Rightarrow> 'e + 'u) \<Rightarrow> route \<Rightarrow> request \<Rightarrow> guard_error + 'u option" where
  "canActivate AuthGuard validate r req =
     (case resolveSession validate req of
        Some user \<Rightarrow> Inr (Some user)
      | None \<Rightarrow> (if route_public r then Inr None else Inl UnauthorizedError))"

text \<open>
  Modelled from the spec: the framework's run of the global guards, missing with the
  framework. Section 9: the guard is "consulted on every inbound request". The guards run
  in turn before the handler; the first rejection ends the request, and the handler runs
  with what the last guard attached.
\<close>

fun runGuards ::
  "class_ref list \<Rightarrow> (string \<Rightarrow> 'e + 'u) \<Rightarrow> route \<Rightarrow> request \<Rightarrow> 'u option \<Rightarrow> 'u outcome" where
  "runGuards [] validate r req attached = Handled r attached"
| "runGuards (g # gs) validate r req attached =
     (case canActivate g validate r req of
        Inl e \<Rightarrow> Unauthorized
      | Inr attached' \<Rightarrow> runGuards gs validate r req attached')"

text \<open>
  Modelled from the spec: the framework's routing, missing with the framework. A request
  goes to the first mounted route with its method and path, through the global guards.
\<close>

definition matches :: "request \<Rightarrow> route \<Rightarrow> bool" where
  "matches req r = (route_method r = request_method req \<and> route_path r = request_path req)"

definition findRoute :: "nest_module \<Rightarrow> (controller \<Rightarrow> route list) \<Rightarrow> request \<Rightarrow> route option" where
  "findRoute app routesOf req =
     find (matches req) (concat (map routesOf (mountedControllers app)))"

definition dispatch ::
  "nest_module \<Rightarrow> (controller \<Rightarrow> route list) \<Rightarrow> (string \<Rightarrow> 'e + 'u) \<Rightarrow> request \<Rightarrow> 'u outcome" where
  "dispatch app routesOf validate req =
     (case findRoute app routesOf req of
        None \<Rightarrow> NotFound
      | Some r \<Rightarrow> runGuards (globalGuards app) validate r req None)"

subsection \<open>A small instance\<close>

text \<open>
  Library modules without controllers and providers of their own, one protected route
  of the users controller, and a session manager that knows one token.
\<close>

definition plainLibrary :: framework_modules where
  "plainLibrary =
     \<lparr>ConfigModule = Module [] [] [] [],
      ConfigModule_forRoot = Module [] [] [] [],
      AuthModule_forRootAsync = (\<lambda>ms. Module ms [] [] [])\<rparr>"

definition profileRoute :: route where
  "profileRoute = \<lparr>route_method = ''GET'', route_path = ''/users/me'', route_public = False\<rparr>"

fun usersRoutes :: "controller \<Rightarrow> route list" where
  "usersRoutes UsersController = [profileRoute]"
| "usersRoutes (LibraryController n) = []"

definition oneSession :: "string \<Rightarrow> unit + string" where
  "oneSession token = (if token = ''t0k3n'' then Inr ''alice'' else Inl ())"

definition profileRequest :: "string option \<Rightarrow> request" where
  "profileRequest carrier =
     \<lparr>request_method = ''GET'', request_path = ''/users/me'', request_token = carrier\<rparr>"





section \<open>Properties of the wiring\<close>

lemma databaseConnectionFactory_unset:
  "configService ''DATABASE_URL'' = None \<Longrightarrow>
   databaseConnectionFactory configService = Inl (MissingKey ''DATABASE_URL'')"
  by (simp add: databaseConnectionFactory_def getOrThrow_def)

lemma databaseConnectionFactory_set:
  "configService ''DATABASE_URL'' = Some url \<Longrightarrow>
   databaseConnectionFactory configService =
     Inr \<lparr>db_client = \<lparr>connectionString = url\<rparr>, db_schema = []\<rparr>"
  by (simp add: databaseConnectionFactory_def getOrThrow_def drizzle_def Pool_def)

text \<open>
  Claim C10. The factory bound to \<^verbatim>\<open>DATABASE_CONNECTION\<close> builds the ORM instance with
  the empty schema object, whatever \<^verbatim>\<open>DATABASE_URL\<close> holds: for every value of the
  variable the factory returns an instance over a pool with that connection string, its
  schema is empty, and none of the tables (user, session, account, verification) is
  registered. The only other outcome of the factory, for any configuration, is the throw of
  \<^verbatim>\<open>getOrThrow\<close> when the variable is not set.
\<close>

theorem C10_empty_schema:
  "(\<exists>db. databaseConnectionFactory (configService(''DATABASE_URL'' \<mapsto> url)) = Inr db
        \<and> connectionString (db_client db) = url
        \<and> db_schema db = []
        \<and> set (registeredTables db) \<inter> set authTables = {})
   \<and> (case databaseConnectionFactory configService of
         Inr db \<Rightarrow> db_schema db = [] \<and> registeredTables db = []
       | Inl e \<Rightarrow> e = MissingKey ''DATABASE_URL'' \<and> configService ''DATABASE_URL'' = None)"
proof -
  have set_case: "\<exists>db. databaseConnectionFactory (configService(''DATABASE_URL'' \<mapsto> url)) = Inr db
        \<and> connectionString (db_client db) = url
        \<and> db_schema db = []
        \<and> set (registeredTables db) \<inter> set authTables = {}"
    by (simp add: databaseConnectionFactory_set registeredTables_def)
  have any_case: "case databaseConnectionFactory configService of
         Inr db \<Rightarrow> db_schema db = [] \<and> registeredTables db = []
       | Inl e \<Rightarrow> e = MissingKey ''DATABASE_URL'' \<and> configService ''DATABASE_URL'' = None"
  proof (cases "configService ''DATABASE_URL''")
    case None
    then show ?thesis by (simp add: databaseConnectionFactory_unset)
  next
    case (Some u)
    then show ?thesis by (simp add: databaseConnectionFactory_set registeredTables_def)
  qed
  from set_case any_case show ?thesis by (rule conjI)
qed

theorem C10_empty_schema_witness:
  "databaseConnectionFactory [''DATABASE_URL'' \<mapsto> ''postgresql://u:p@localhost:5432/better_auth_db'']
     = Inr \<lparr>db_client = \<lparr>connectionString = ''postgresql://u:p@localhost:5432/better_auth_db''\<rparr>,
            db_schema = []\<rparr>"
  using C10_empty_schema [of Map.empty "''postgresql://u:p@localhost:5432/better_auth_db''"]
  by auto

text \<open>
  Claim C9, as amended. The configuration surface of this code recognises the connection
  string of the durable store: \<^verbatim>\<open>DATABASE_URL\<close> is required (resolving the
  authentication module throws when it is not set) and its value becomes the connection
  string of the pool behind the adapter handed to the library. The session lifetime and the
  cost factor of the credential hash are no options of this surface: for every
  configuration, the options handed to \<^verbatim>\<open>betterAuth\<close> set neither.
\<close>

theorem C9_configuration_surface:
  "(configService ''DATABASE_URL'' = None \<longrightarrow>
      resolveAuthModule configService = Inl (MissingKey ''DATABASE_URL''))
   \<and> (configService ''DATABASE_URL'' = Some url \<longrightarrow>
      (\<exists>options. resolveAuthModule configService = Inr \<lparr>auth = BetterAuth options\<rparr>
         \<and> opt_database options =
             Some \<lparr>adapter_database = \<lparr>db_client = \<lparr>connectionString = url\<rparr>, db_schema = []\<rparr>,
                   adapter_provider = ''pg''\<rparr>
         \<and> opt_sessionExpiresIn options = None
         \<and> opt_passwordHashCost options = None))"
proof (intro conjI impI)
  assume "configService ''DATABASE_URL'' = None"
  then show "resolveAuthModule configService = Inl (MissingKey ''DATABASE_URL'')"
    by (simp add: resolveAuthModule_def databaseConnectionFactory_unset)
next
  assume "configService ''DATABASE_URL'' = Some url"
  then have "databaseConnectionFactory configService =
     Inr \<lparr>db_client = \<lparr>connectionString = url\<rparr>, db_schema = []\<rparr>"
    by (rule databaseConnectionFactory_set)
  then show "\<exists>options. resolveAuthModule configService = Inr \<lparr>auth = BetterAuth options\<rparr>
         \<and> opt_database options =
             Some \<lparr>adapter_database = \<lparr>db_client = \<lparr>connectionString = url\<rparr>, db_schema = []\<rparr>,
                   adapter_provider = ''pg''\<rparr>
         \<and> opt_sessionExpiresIn options = None
         \<and> opt_passwordHashCost options = None"
    by (simp add: resolveAuthModule_def authModuleFactory_def betterAuth_def drizzleAdapter_def)
qed

theorem C9_configuration_surface_witness:
  "resolveAuthModule [''PORT'' \<mapsto> ''3000''] = Inl (MissingKey ''DATABASE_URL'')
   \<and> (\<exists>options. resolveAuthModule [''DATABASE_URL'' \<mapsto> ''postgresql://localhost:5432/db'']
          = Inr \<lparr>auth = BetterAuth options\<rparr>
        \<and> opt_sessionExpiresIn options = None \<and> opt_passwordHashCost options = None)"
proof
  have unset: "[''PORT'' \<mapsto> ''3000''] ''DATABASE_URL'' = None"
    by simp
  from C9_configuration_surface [of "[''PORT'' \<mapsto> ''3000'']", THEN conjunct1] unset
  show "resolveAuthModule [''PORT'' \<mapsto> ''3000''] = Inl (MissingKey ''DATABASE_URL'')"
    by (rule mp)
next
  have set: "[''DATABASE_URL'' \<mapsto> ''postgresql://localhost:5432/db''] ''DATABASE_URL''
      = Some ''postgresql://localhost:5432/db''"
    by simp
  from C9_configuration_surface
    [of "[''DATABASE_URL'' \<mapsto> ''postgresql://localhost:5432/db'']"
      "''postgresql://localhost:5432/db''", THEN conjunct2] set
  have "\<exists>options. resolveAuthModule [''DATABASE_URL'' \<mapsto> ''postgresql://localhost:5432/db'']
          = Inr \<lparr>auth = BetterAuth options\<rparr>
        \<and> opt_database options =
             Some \<lparr>adapter_database =
                      \<lparr>db_client = \<lparr>connectionString = ''postgresql://localhost:5432/db''\<rparr>,
                       db_schema = []\<rparr>,
                   adapter_provider = ''pg''\<rparr>
        \<and> opt_sessionExpiresIn options = None \<and> opt_passwordHashCost options = None"
    by (rule mp)
  then show "\<exists>options. resolveAuthModule [''DATABASE_URL'' \<mapsto> ''postgresql://localhost:5432/db'']
          = Inr \<lparr>auth = BetterAuth options\<rparr>
        \<and> opt_sessionExpiresIn options = None \<and> opt_passwordHashCost options = None"
    by blast
qed

text \<open>
  Claim C9, as stated, fails: an environment that sets a session lifetime and a hash cost
  next to the connection string resolves to the same options as the environment without
  them, and these options carry neither setting.
\<close>

theorem C9_counterexample:
  "resolveAuthModule [''DATABASE_URL'' \<mapsto> ''postgresql://localhost:5432/db'',
                      ''SESSION_TTL'' \<mapsto> ''60'', ''HASH_COST'' \<mapsto> ''4'']
     = resolveAuthModule [''DATABASE_URL'' \<mapsto> ''postgresql://localhost:5432/db'']
   \<and> resolveAuthModule [''DATABASE_URL'' \<mapsto> ''postgresql://localhost:5432/db'',
                        ''SESSION_TTL'' \<mapsto> ''60'', ''HASH_COST'' \<mapsto> ''4'']
     = Inr \<lparr>auth = BetterAuth
          \<lparr>opt_database =
             Some \<lparr>adapter_database =
                      \<lparr>db_client = \<lparr>connectionString = ''postgresql://localhost:5432/db''\<rparr>,
                       db_schema = []\<rparr>,
                   adapter_provider = ''pg''\<rparr>,
           opt_emailAndPassword = None,
           opt_trustedOrigins = None,
           opt_sessionExpiresIn = None,
           opt_passwordHashCost = None\<rparr>\<rparr>"
  by (simp add: resolveAuthModule_def databaseConnectionFactory_def getOrThrow_def
      authModuleFactory_def betterAuth_def drizzleAdapter_def drizzle_def Pool_def)

text \<open>
  Claim C2 asks that registration with an email and a password, then login, succeed. The
  README documents the call to \<^verbatim>\<open>betterAuth\<close> with
  \<^verbatim>\<open>emailAndPassword: { enabled: true }\<close> and the database module with the tables of the
  authentication schema registered. The code does neither: whenever the application
  starts, the options it hands to the library leave \<^verbatim>\<open>emailAndPassword\<close> unset, and the
  database behind the adapter has no table registered.
\<close>

theorem C2_email_and_password_not_enabled:
  "\<exists>options adapter.
      resolveAuthModule (configService(''DATABASE_URL'' \<mapsto> url)) = Inr \<lparr>auth = BetterAuth options\<rparr>
    \<and> opt_emailAndPassword options = None
    \<and> opt_database options = Some adapter
    \<and> registeredTables (adapter_database adapter) = []"
  by (simp add: resolveAuthModule_def databaseConnectionFactory_set authModuleFactory_def
      betterAuth_def drizzleAdapter_def registeredTables_def)

section \<open>Properties of the access guard\<close>

lemma globalGuards_AppModule: "\<exists>gs. globalGuards (AppModule lib) = AuthGuard # gs"
  by (simp add: AppModule_def)

lemma mountedControllers_AppModule: "UsersController \<in> set (mountedControllers (AppModule lib))"
  by (simp add: AppModule_def UsersModule_def)

lemma AppModule_second_own:
  "module_providers (AppModule_second lib) = [] \<and> module_controllers (AppModule_second lib) = []"
  by (simp add: AppModule_second_def)

lemma AppModule_second_plain:
  "globalGuards (AppModule_second plainLibrary) = []
   \<and> mountedControllers (AppModule_second plainLibrary) = []"
  by (simp add: AppModule_second_def plainLibrary_def DatabaseModule_def)

lemma runGuards_protected:
  "\<not> route_public r \<Longrightarrow>
   runGuards gs validate r req (resolveSession validate req) =
     (case resolveSession validate req of
        None \<Rightarrow> (if gs = [] then Handled r None else Unauthorized)
      | Some user \<Rightarrow> Handled r (Some user))"
proof (induction gs)
  case Nil
  then show ?case by (simp split: option.splits)
next
  case (Cons g gs)
  then show ?case by (cases g) (simp split: option.splits)
qed

lemma runGuards_Handled_route:
  "runGuards gs validate r req attached = Handled r' attached' \<Longrightarrow> r' = r"
  by (induction gs arbitrary: attached) (auto split: sum.splits)

lemma resolveSession_Some:
  "resolveSession validate req = Some user \<Longrightarrow>
   \<exists>token. request_token req = Some token \<and> validate token = Inr user"
  by (auto simp: resolveSession_def split: option.splits sum.splits)

lemma runGuards_AuthGuard_first:
  "\<not> route_public r \<Longrightarrow>
   runGuards (AuthGuard # gs) validate r req attached =
     (case resolveSession validate req of
        None \<Rightarrow> Unauthorized
      | Some user \<Rightarrow> Handled r (Some user))"
  using runGuards_protected [of r gs validate req]
  by (simp split: option.splits)

text \<open>
  The first text of the application module registers \<^verbatim>\<open>AuthGuard\<close> under
  \<^verbatim>\<open>APP_GUARD\<close>, so the guard stands before every mounted route, whatever the library
  modules contribute.
  For a request that matches a route not marked public, the outcome is Unauthorized unless
  the token of the request validates, and then the handler runs with the owning user
  attached; conversely, whenever the handler of a route not marked public runs, the request
  carried a token that validated to the attached user.
\<close>

theorem AppModule_default_deny:
  "(findRoute (AppModule lib) routesOf req = Some r \<and> \<not> route_public r \<longrightarrow>
      dispatch (AppModule lib) routesOf validate req =
        (case resolveSession validate req of
           None \<Rightarrow> Unauthorized
         | Some user \<Rightarrow> Handled r (Some user)))
   \<and> (dispatch (AppModule lib) routesOf validate req = Handled r attached \<and> \<not> route_public r \<longrightarrow>
      (\<exists>token user. request_token req = Some token \<and> validate token = Inr user
         \<and> attached = Some user))"
proof -
  obtain gs where gs: "globalGuards (AppModule lib) = AuthGuard # gs"
    using globalGuards_AppModule by blast
  have eq: "dispatch (AppModule lib) routesOf validate req =
        (case resolveSession validate req of
           None \<Rightarrow> Unauthorized
         | Some user \<Rightarrow> Handled r (Some user))"
    if "findRoute (AppModule lib) routesOf req = Some r" "\<not> route_public r"
    using that by (simp add: dispatch_def gs runGuards_AuthGuard_first del: runGuards.simps)
  have handled: "\<exists>token user. request_token req = Some token \<and> validate token = Inr user
         \<and> attached = Some user"
    if h: "dispatch (AppModule lib) routesOf validate req = Handled r attached"
      and p: "\<not> route_public r"
  proof -
    from h obtain r' where f: "findRoute (AppModule lib) routesOf req = Some r'"
      by (auto simp: dispatch_def split: option.splits)
    with h have "runGuards (AuthGuard # gs) validate r' req None = Handled r attached"
      by (simp add: dispatch_def gs del: runGuards.simps)
    then have "r = r'" by (rule runGuards_Handled_route)
    with f p eq h have "(case resolveSession validate req of
           None \<Rightarrow> Unauthorized
         | Some user \<Rightarrow> Handled r (Some user)) = Handled r attached"
      by simp
    then obtain user where "resolveSession validate req = Some user" "attached = Some user"
      by (auto split: option.splits)
    then show ?thesis using resolveSession_Some by fastforce
  qed
  from eq handled show ?thesis by blast
qed

theorem AppModule_default_deny_instance:
  "dispatch (AppModule plainLibrary) usersRoutes oneSession (profileRequest None) = Unauthorized
   \<and> dispatch (AppModule plainLibrary) usersRoutes oneSession (profileRequest (Some ''stale''))
       = Unauthorized
   \<and> dispatch (AppModule plainLibrary) usersRoutes oneSession (profileRequest (Some ''t0k3n''))
       = Handled profileRoute (Some ''alice'')
   \<and> (\<exists>token. request_token (profileRequest (Some ''t0k3n'')) = Some token
         \<and> oneSession token = Inr ''alice'')"
proof -
  have route: "findRoute (AppModule plainLibrary) usersRoutes (profileRequest carrier)
      = Some profileRoute \<and> \<not> route_public profileRoute" for carrier
    by (simp add: findRoute_def AppModule_def UsersModule_def plainLibrary_def DatabaseModule_def
        matches_def profileRoute_def profileRequest_def)
  have run: "dispatch (AppModule plainLibrary) usersRoutes oneSession (profileRequest carrier) =
        (case resolveSession oneSession (profileRequest carrier) of
           None \<Rightarrow> Unauthorized
         | Some user \<Rightarrow> Handled profileRoute (Some user))" for carrier
    using AppModule_default_deny [of plainLibrary usersRoutes "profileRequest carrier" profileRoute
        oneSession, THEN conjunct1] route [of carrier]
    by (rule mp)
  have session: "resolveSession oneSession (profileRequest None) = None"
    "resolveSession oneSession (profileRequest (Some ''stale'')) = None"
    "resolveSession oneSession (profileRequest (Some ''t0k3n'')) = Some ''alice''"
    by (simp_all add: resolveSession_def oneSession_def profileRequest_def)
  have outcomes:
    "dispatch (AppModule plainLibrary) usersRoutes oneSession (profileRequest None) = Unauthorized"
    "dispatch (AppModule plainLibrary) usersRoutes oneSession (profileRequest (Some ''stale''))
       = Unauthorized"
    "dispatch (AppModule plainLibrary) usersRoutes oneSession (profileRequest (Some ''t0k3n''))
       = Handled profileRoute (Some ''alice'')"
    by (simp_all only: run session option.case)
  have "dispatch (AppModule plainLibrary) usersRoutes oneSession (profileRequest (Some ''t0k3n''))
       = Handled profileRoute (Some ''alice'') \<and> \<not> route_public profileRoute"
    using outcomes(3) route by simp
  with AppModule_default_deny [of plainLibrary usersRoutes "profileRequest (Some ''t0k3n'')" profileRoute
        oneSession "Some ''alice''", THEN conjunct2]
  have "\<exists>token user. request_token (profileRequest (Some ''t0k3n'')) = Some token
         \<and> oneSession token = Inr user \<and> Some ''alice'' = Some user"
    by (rule mp)
  then have owner: "\<exists>token. request_token (profileRequest (Some ''t0k3n'')) = Some token
         \<and> oneSession token = Inr ''alice''"
    by auto
  from outcomes owner show ?thesis by simp
qed

text \<open>
  The second text of the application module registers no provider. Its global guards are
  those the library modules bring, and where they bring none, every request that matches a
  mounted route reaches the handler with nothing attached.
\<close>

lemma globalGuards_AppModule_second:
  "globalGuards (AppModule_second lib) =
     globalGuards (ConfigModule_forRoot lib) @ globalGuards (DatabaseModule lib)
       @ globalGuards (AuthModule_forRootAsync lib [])"
  by (simp add: AppModule_second_def)

lemma AppModule_second_unguarded:
  "globalGuards (AppModule_second lib) = [] \<Longrightarrow>
   dispatch (AppModule_second lib) routesOf validate req =
     (case findRoute (AppModule_second lib) routesOf req of
        None \<Rightarrow> NotFound
      | Some r \<Rightarrow> Handled r None)"
  by (simp add: dispatch_def split: option.splits)


end
